theory Spec2Isabelle
  imports Main
begin

section \<open>Data model\<close>

text \<open>
  Instants are points on the UTC time line, counted in a fixed unit (Django stores
  \<^verbatim>\<open>DateTimeField\<close> values with microsecond resolution); only their order matters here.
\<close>

type_synonym instant = int

text \<open>
  \<^verbatim>\<open>class Alias(models.Model)\<close>: the four declared fields and the automatic primary key
  of a Django model. A Python object that was never saved has \<open>pk = None\<close>. The fields
  \<^verbatim>\<open>alias\<close> and \<^verbatim>\<open>end\<close> carry a prime because both words are reserved in theory text.
\<close>

record Alias =
  pk :: "nat option"
  alias' :: string
  target :: string
  start :: instant
  end' :: "instant option"

text \<open>The exceptions that the module and the Django calls it makes can raise.\<close>

datatype error =
    ValueError string
  | TypeError
  | DatabaseError
  | IntegrityError
  | DoesNotExist
  | MultipleObjectsReturned

text \<open>
  The database table behind \<^verbatim>\<open>Alias.objects\<close>: its rows in insertion order, each with a
  primary key. Django runs in autocommit mode and the module opens no transaction, so
  every write is committed at once and an exception raised later leaves it in place.
\<close>

type_synonym table = "Alias list"

definition pks :: "table \<Rightarrow> nat list" where
  "pks db = concat (map (\<lambda>r. case pk r of None \<Rightarrow> [] | Some k \<Rightarrow> [k]) db)"

definition new_pk :: "table \<Rightarrow> nat" where
  "new_pk db = Suc (foldr max (pks db) 0)"

section \<open>The Django calls used by the module\<close>

text \<open>
  The keyword arguments with which \<^verbatim>\<open>save\<close> is called in this repository: none,
  \<^verbatim>\<open>force_insert=True\<close> (from \<^verbatim>\<open>Alias.objects.create\<close>) and \<^verbatim>\<open>update_fields=['end']\<close>
  (from \<^verbatim>\<open>alias_replace\<close>).
\<close>

datatype kwargs = NoKwargs | ForceInsert | UpdateFieldsEnd

text \<open>
  The two \<^verbatim>\<open>UPDATE ... WHERE id = k\<close> statements that Django issues: all fields of
  the object, or the field \<^verbatim>\<open>end\<close> alone under \<^verbatim>\<open>update_fields=['end']\<close>.
\<close>

definition update_row :: "nat \<Rightarrow> Alias \<Rightarrow> table \<Rightarrow> table" where
  "update_row k self db = map (\<lambda>r. if pk r = Some k then self else r) db"

definition update_end :: "nat \<Rightarrow> instant option \<Rightarrow> table \<Rightarrow> table" where
  "update_end k e db = map (\<lambda>r. if pk r = Some k then r\<lparr>end' := e\<rparr> else r) db"

text \<open>
  \<^verbatim>\<open>super(Alias, self).save(*args, **kwargs)\<close>, Django's \<^verbatim>\<open>Model.save\<close>: an object
  without primary key is inserted under a fresh key (and cannot be saved with
  \<^verbatim>\<open>update_fields\<close>); an object with a primary key updates the row of that key, or is
  inserted when no such row exists; \<^verbatim>\<open>update_fields\<close> writes the named field only and
  must affect a row; \<^verbatim>\<open>force_insert\<close> on a key already present violates uniqueness.
  The result holds the object after the call (its key assigned) and the table.
\<close>

definition Model_save :: "kwargs \<Rightarrow> Alias \<Rightarrow> table \<Rightarrow> (error + Alias) \<times> table" where
  "Model_save kw self db =
     (case pk self of
        None \<Rightarrow>
          (case kw of
             UpdateFieldsEnd \<Rightarrow>
               (Inl (ValueError ''Cannot force an update in save() with no primary key.''), db)
           | _ \<Rightarrow> (let self1 = self\<lparr>pk := Some (new_pk db)\<rparr> in (Inr self1, db @ [self1])))
      | Some k \<Rightarrow>
          (case kw of
             ForceInsert \<Rightarrow>
               (if k \<in> set (pks db) then (Inl IntegrityError, db) else (Inr self, db @ [self]))
           | UpdateFieldsEnd \<Rightarrow>
               (if k \<in> set (pks db) then (Inr self, update_end k (end' self) db)
                else (Inl DatabaseError, db))
           | NoKwargs \<Rightarrow>
               (if k \<in> set (pks db) then (Inr self, update_row k self db)
                else (Inr self, db @ [self]))))"

text \<open>\<^verbatim>\<open>Alias.objects.get(alias=v)\<close>: the single row with that alias, or an exception.\<close>

definition objects_get :: "string \<Rightarrow> table \<Rightarrow> error + Alias" where
  "objects_get v db =
     (case filter (\<lambda>r. alias' r = v) db of
        [] \<Rightarrow> Inl DoesNotExist
      | [r] \<Rightarrow> Inr r
      | _ \<Rightarrow> Inl MultipleObjectsReturned)"

section \<open>\<^verbatim>\<open>Alias.save\<close>\<close>

text \<open>
  The lookups of \<^verbatim>\<open>save\<close>. A comparison with a \<^verbatim>\<open>NULL\<close> end selects no row, as in SQL.
\<close>

definition same_key_start :: "Alias \<Rightarrow> table \<Rightarrow> table" where
  "same_key_start self db =
     filter (\<lambda>r. alias' r = alias' self \<and> target r = target self \<and> start r = start self) db"

definition overlapping_start_bounded :: "Alias \<Rightarrow> instant \<Rightarrow> table \<Rightarrow> table" where
  "overlapping_start_bounded self e db =
     filter (\<lambda>r. alias' r = alias' self \<and> target r = target self
                 \<and> start r \<ge> start self \<and> start r < e) db"

definition overlapping_end_bounded :: "Alias \<Rightarrow> instant \<Rightarrow> table \<Rightarrow> table" where
  "overlapping_end_bounded self e db =
     filter (\<lambda>r. alias' r = alias' self \<and> target r = target self
                 \<and> (case end' r of None \<Rightarrow> False | Some x \<Rightarrow> x \<ge> start self \<and> x < e)) db"

definition overlapping_start_open :: "Alias \<Rightarrow> table \<Rightarrow> table" where
  "overlapping_start_open self db =
     filter (\<lambda>r. alias' r = alias' self \<and> target r = target self \<and> start r \<ge> start self) db"

abbreviation overlap_error :: error where
  "overlap_error \<equiv> ValueError ''Your new Alias may cause overlap.''"

definition save :: "kwargs \<Rightarrow> Alias \<Rightarrow> table \<Rightarrow> (error + Alias) \<times> table" where
  "save kw self db =
     (if same_key_start self db \<noteq> [] then Model_save kw self db
      else
        (case end' self of
           Some e \<Rightarrow>
             (let aliases_overlapping_start = length (overlapping_start_bounded self e db);
                  aliases_overlapping_end = length (overlapping_end_bounded self e db);
                  overlapping_present =
                    (aliases_overlapping_start > 0 \<or> aliases_overlapping_end > 0)
              in if overlapping_present then (Inl overlap_error, db)
                 else Model_save kw self db)
         | None \<Rightarrow>
             (let aliases_overlapping_start = length (overlapping_start_open self db);
                  overlapping_present = (aliases_overlapping_start > 0)
              in if overlapping_present then (Inl overlap_error, db)
                 else Model_save kw self db)))"

text \<open>
  \<^verbatim>\<open>Alias.objects.create(alias=.., target=.., start=.., end=..)\<close>: builds the object and
  calls its \<^verbatim>\<open>save(force_insert=True)\<close>.
\<close>

definition objects_create ::
  "string \<Rightarrow> string \<Rightarrow> instant \<Rightarrow> instant option \<Rightarrow> table \<Rightarrow> (error + Alias) \<times> table" where
  "objects_create a t s e db =
     save ForceInsert \<lparr>pk = None, alias' = a, target = t, start = s, end' = e\<rparr> db"

section \<open>\<^verbatim>\<open>Alias.__str__\<close>\<close>


section \<open>\<^verbatim>\<open>get_aliases\<close>\<close>

text \<open>
  A Python \<^verbatim>\<open>datetime\<close>: its calendar and clock fields, counted as the instant at which a
  UTC clock shows them, and its \<^verbatim>\<open>tzinfo\<close>, the offset from UTC in the same unit, or
  \<^verbatim>\<open>None\<close> for a naive value. \<^verbatim>\<open>replace(tzinfo=pytz.utc)\<close> keeps the fields and relabels
  them as UTC; it does not convert. The instant of a zone-aware value is its fields less
  its offset. A naive value has no instant of its own and its fields are taken as they
  are; the code relabels every value before it compares it, so only the case of the
  offset 0 is ever used.
\<close>

record datetime =
  wall :: instant
  tzinfo :: "int option"

definition replace_tzinfo_utc :: "datetime \<Rightarrow> datetime" where
  "replace_tzinfo_utc d = d\<lparr>tzinfo := Some 0\<rparr>"

definition instant_of :: "datetime \<Rightarrow> instant" where
  "instant_of d = wall d - (case tzinfo d of None \<Rightarrow> 0 | Some off \<Rightarrow> off)"

text \<open>
  A Python argument of \<^verbatim>\<open>get_aliases\<close>: a string, a \<^verbatim>\<open>datetime\<close>, or a value of any
  other type. \<^verbatim>\<open>datetime.strptime\<close> is a parameter: it takes the text and the format and
  returns the naive value read, or nothing where Python raises \<^verbatim>\<open>ValueError\<close> (whose
  message, which quotes the text and the format, is shortened here).
\<close>

datatype pyarg = Str string | Datetime datetime | Other

definition parse_start :: "(string \<Rightarrow> string \<Rightarrow> datetime option) \<Rightarrow> pyarg \<Rightarrow> error + instant" where
  "parse_start strptime a =
     (case a of
        Str s \<Rightarrow>
          (case strptime s ''%Y-%m-%d %H:%M:%S.%f'' of
             None \<Rightarrow> Inl (ValueError ''time data does not match format'')
           | Some d \<Rightarrow> Inr (instant_of (replace_tzinfo_utc d)))
      | Datetime d \<Rightarrow> Inr (instant_of (replace_tzinfo_utc d))
      | Other \<Rightarrow> Inl (ValueError '''start' should be either datetime or str''))"

definition parse_end :: "(string \<Rightarrow> string \<Rightarrow> datetime option) \<Rightarrow> pyarg \<Rightarrow> error + instant" where
  "parse_end strptime a =
     (case a of
        Str s \<Rightarrow>
          (case strptime s ''%Y-%m-%d %H:%M:%S:%f'' of
             None \<Rightarrow> Inl (ValueError ''time data does not match format'')
           | Some d \<Rightarrow> Inr (instant_of (replace_tzinfo_utc d)))
      | Datetime d \<Rightarrow> Inr (instant_of (replace_tzinfo_utc d))
      | Other \<Rightarrow> Inl (ValueError '''end' should be either datetime or str or None''))"

text \<open>
  The loop of the bounded branch. Python's \<^verbatim>\<open>and\<close> evaluates \<^verbatim>\<open>alias.end <= to\<close> only when
  \<^verbatim>\<open>alias.start >= from_\<close> holds, and \<^verbatim>\<open>None <= to\<close> raises \<^verbatim>\<open>TypeError\<close>.
\<close>

fun collect_bounded :: "instant \<Rightarrow> instant \<Rightarrow> table \<Rightarrow> string list \<Rightarrow> error + string list" where
  "collect_bounded from' to [] aliases = Inr aliases"
| "collect_bounded from' to (a # query_set) aliases =
     (if start a \<ge> from'
      then (case end' a of
              None \<Rightarrow> Inl TypeError
            | Some e \<Rightarrow>
                if e \<le> to then collect_bounded from' to query_set (aliases @ [alias' a])
                else collect_bounded from' to query_set aliases)
      else collect_bounded from' to query_set aliases)"

fun collect_open :: "instant \<Rightarrow> table \<Rightarrow> string list \<Rightarrow> string list" where
  "collect_open from' [] aliases = aliases"
| "collect_open from' (a # query_set) aliases =
     (if start a \<ge> from' then collect_open from' query_set (aliases @ [alias' a])
      else collect_open from' query_set aliases)"

definition get_aliases ::
  "(string \<Rightarrow> string \<Rightarrow> datetime option) \<Rightarrow> string \<Rightarrow> pyarg \<Rightarrow> pyarg option \<Rightarrow> table
     \<Rightarrow> error + string list" where
  "get_aliases strptime tgt start_arg end_arg db =
     (case parse_start strptime start_arg of
        Inl err \<Rightarrow> Inl err
      | Inr from' \<Rightarrow>
          (let query_set = filter (\<lambda>r. target r = tgt) db in
           case end_arg of
             Some ea \<Rightarrow>
               (case parse_end strptime ea of
                  Inl err \<Rightarrow> Inl err
                | Inr to \<Rightarrow> collect_bounded from' to query_set [])
           | None \<Rightarrow> Inr (collect_open from' query_set [])))"

section \<open>\<^verbatim>\<open>alias_replace\<close>\<close>

text \<open>
  The result is the returned value or the raised exception, the Python object
  \<^verbatim>\<open>existing_alias\<close> as the caller sees it afterwards (its \<^verbatim>\<open>end\<close> is assigned before
  anything else happens), and the table.
\<close>

definition alias_replace ::
  "Alias \<Rightarrow> instant \<Rightarrow> string \<Rightarrow> table \<Rightarrow> (error + string) \<times> Alias \<times> table" where
  "alias_replace existing_alias replace_at new_alias_value db =
     (let existing1 = existing_alias\<lparr>end' := Some replace_at\<rparr> in
      case save UpdateFieldsEnd existing1 db of
        (Inl err, db1) \<Rightarrow> (Inl err, existing1, db1)
      | (Inr existing2, db1) \<Rightarrow>
          (case objects_create new_alias_value (target existing2) replace_at None db1 of
             (Inl err, db2) \<Rightarrow> (Inl err, existing2, db2)
           | (Inr created, db2) \<Rightarrow>
               (case objects_get new_alias_value db2 of
                  Inl err \<Rightarrow> (Inl err, existing2, db2)
                | Inr found \<Rightarrow> (Inr (alias' found), existing2, db2))))"

section \<open>The overlap formula of the specification\<close>




section \<open>The overlap check of \<^verbatim>\<open>Alias.save\<close>\<close>

text \<open>
  The base-class save never raises the overlap error, so \<^verbatim>\<open>save\<close> raises it exactly when
  its own lookups say so, and then the table is untouched.
\<close>

lemma Model_save_not_overlap: "fst (Model_save kw self db) \<noteq> Inl overlap_error"
  by (auto simp: Model_save_def Let_def split: option.splits kwargs.splits)


lemma save_accept:
  "fst (save kw c db) \<noteq> Inl overlap_error \<Longrightarrow> save kw c db = Model_save kw c db"
  by (auto simp: save_def Let_def split: option.splits if_splits)









section \<open>Adjacent intervals\<close>

text \<open>
  Claim C2 at a committed row \<open>[0, 50)\<close>: creating the bounded record \<open>[50, 60)\<close> of the
  same key raises the overlap error, since the lookup \<^verbatim>\<open>end__gte=self.start\<close> selects a row
  that ends exactly where the candidate starts; creating the open-ended \<open>[50, \<infinity>)\<close>
  succeeds, as \<^verbatim>\<open>test_end_is_exclusive\<close> expects of a start equal to the first record's end.
\<close>

theorem adjacent_bounded_insert_rejected:
  "objects_create ''x'' ''T'' 50 (Some 60)
     [\<lparr>pk = Some 1, alias' = ''x'', target = ''T'', start = 0, end' = Some 50\<rparr>]
   = (Inl overlap_error,
      [\<lparr>pk = Some 1, alias' = ''x'', target = ''T'', start = 0, end' = Some 50\<rparr>])
  \<and> objects_create ''x'' ''T'' 50 None
     [\<lparr>pk = Some 1, alias' = ''x'', target = ''T'', start = 0, end' = Some 50\<rparr>]
   = (Inr \<lparr>pk = Some 2, alias' = ''x'', target = ''T'', start = 50, end' = None\<rparr>,
      [\<lparr>pk = Some 1, alias' = ''x'', target = ''T'', start = 0, end' = Some 50\<rparr>,
       \<lparr>pk = Some 2, alias' = ''x'', target = ''T'', start = 50, end' = None\<rparr>])"
  by (simp add: objects_create_def save_def Model_save_def same_key_start_def
      overlapping_start_bounded_def overlapping_end_bounded_def overlapping_start_open_def
      new_pk_def pks_def Let_def eval_nat_numeral)

section \<open>Intervals that end at or before their start\<close>

text \<open>For such a candidate both bounded lookups range over an empty interval.\<close>

lemma empty_range_start: "e \<le> start c \<Longrightarrow> overlapping_start_bounded c e db = []"
  by (auto simp: overlapping_start_bounded_def filter_empty_conv)

lemma empty_range_end: "e \<le> start c \<Longrightarrow> overlapping_end_bounded c e db = []"
  by (auto simp: overlapping_end_bounded_def filter_empty_conv split: option.splits)

text \<open>
  Claim C4, as the code has it: nothing checks the interval. Creating a record whose
  bounded end is at or before its start never fails, whatever the table holds, and the
  record is committed under a fresh primary key.
\<close>

theorem reversed_interval_is_committed:
  assumes "e \<le> s"
  shows "objects_create a t s (Some e) db =
           (Inr \<lparr>pk = Some (new_pk db), alias' = a, target = t, start = s, end' = Some e\<rparr>,
            db @ [\<lparr>pk = Some (new_pk db), alias' = a, target = t, start = s, end' = Some e\<rparr>])"
  using assms
  by (simp add: objects_create_def save_def Model_save_def empty_range_start empty_range_end Let_def)

text \<open>The theorem at the reversed interval from 10 to 5, over a committed row of the same key.\<close>

theorem reversed_interval_is_committed_witness:
  "(5::int) \<le> 10 \<and>
   objects_create ''a'' ''T'' 10 (Some 5)
     [\<lparr>pk = Some 1, alias' = ''a'', target = ''T'', start = 0, end' = Some 20\<rparr>]
   = (Inr \<lparr>pk = Some 2, alias' = ''a'', target = ''T'', start = 10, end' = Some 5\<rparr>,
      [\<lparr>pk = Some 1, alias' = ''a'', target = ''T'', start = 0, end' = Some 20\<rparr>,
       \<lparr>pk = Some 2, alias' = ''a'', target = ''T'', start = 10, end' = Some 5\<rparr>])"
  using reversed_interval_is_committed
    [of 5 10 "''a''" "''T''"
        "[\<lparr>pk = Some 1, alias' = ''a'', target = ''T'', start = 0, end' = Some 20\<rparr>]"]
  by (simp add: new_pk_def pks_def eval_nat_numeral)

text \<open>
  Claim C4 as stated fails: on the empty table the reversed interval from 10 to 5 and the
  zero-length interval at 10 are both created and committed.
\<close>

theorem invalid_interval_counterexample:
  "objects_create ''a'' ''T'' 10 (Some 5) []
   = (Inr \<lparr>pk = Some 1, alias' = ''a'', target = ''T'', start = 10, end' = Some 5\<rparr>,
      [\<lparr>pk = Some 1, alias' = ''a'', target = ''T'', start = 10, end' = Some 5\<rparr>])
   \<and> objects_create ''a'' ''T'' 10 (Some 10) []
   = (Inr \<lparr>pk = Some 1, alias' = ''a'', target = ''T'', start = 10, end' = Some 10\<rparr>,
      [\<lparr>pk = Some 1, alias' = ''a'', target = ''T'', start = 10, end' = Some 10\<rparr>])"
  by (simp add: objects_create_def save_def Model_save_def same_key_start_def
      overlapping_start_bounded_def overlapping_end_bounded_def new_pk_def pks_def Let_def)

section \<open>Resolution of a record at an instant\<close>



section \<open>The bounded branch of \<^verbatim>\<open>get_aliases\<close>\<close>

text \<open>
  The loop returns the aliases of the rows that lie within the range when it meets no
  open-ended row starting at or after \<open>from'\<close>, and raises \<^verbatim>\<open>TypeError\<close> when it meets one.
\<close>

lemma collect_bounded_no_open:
  assumes "\<forall>r \<in> set qs. start r \<ge> from' \<longrightarrow> end' r \<noteq> None"
  shows "collect_bounded from' to qs acc =
           Inr (acc @ map alias'
                  (filter (\<lambda>r. start r \<ge> from'
                       \<and> (case end' r of None \<Rightarrow> False | Some e \<Rightarrow> e \<le> to)) qs))"
  using assms
  by (induction qs arbitrary: acc) (auto split: option.splits)


text \<open>
  The bounds the code compares with: a datetime argument contributes its calendar and
  clock fields read as UTC, whatever zone it carried, and no argument is refused with
  \<^verbatim>\<open>TypeError\<close>.
\<close>

lemma instant_of_replace_tzinfo_utc: "instant_of (replace_tzinfo_utc d) = wall d"
  by (simp add: instant_of_def replace_tzinfo_utc_def)

lemma parse_start_Datetime: "parse_start strptime (Datetime d) = Inr (wall d)"
  by (simp add: parse_start_def instant_of_replace_tzinfo_utc)

lemma parse_end_Datetime: "parse_end strptime (Datetime d) = Inr (wall d)"
  by (simp add: parse_end_def instant_of_replace_tzinfo_utc)



lemma get_aliases_bounded_parsed:
  assumes "parse_start strptime start_arg = Inr from'" "parse_end strptime end_arg = Inr to"
  shows "get_aliases strptime tgt start_arg (Some end_arg) db =
           collect_bounded from' to (filter (\<lambda>r. target r = tgt) db) []"
  using assms by (simp add: get_aliases_def)

text \<open>
  Claim C3, as the code has it. Take a bounded query whose two arguments the code
  accepts, and let \<open>from'\<close> and \<open>to\<close> be the bounds it reads from them (for a datetime, its
  fields read as UTC). Over a target none of whose rows starting at or after \<open>from'\<close> is
  open-ended, \<^verbatim>\<open>get_aliases\<close> returns, in the order the query yields the rows, the aliases
  of exactly those rows of the target whose interval lies within the query range:
  \<open>start \<ge> from'\<close> and \<open>end \<le> to\<close>. The test is the converse of containment of the query
  range in the record's interval.
\<close>

theorem get_aliases_bounded_within_range:
  assumes "parse_start strptime start_arg = Inr from'"
    and "parse_end strptime end_arg = Inr to"
    and "\<forall>r \<in> set db. target r = tgt \<and> start r \<ge> from' \<longrightarrow> end' r \<noteq> None"
  shows "get_aliases strptime tgt start_arg (Some end_arg) db =
           Inr (map alias'
                  (filter (\<lambda>r. target r = tgt \<and> start r \<ge> from'
                       \<and> (case end' r of None \<Rightarrow> False | Some e \<Rightarrow> e \<le> to)) db))"
proof -
  have "\<forall>r \<in> set (filter (\<lambda>r. target r = tgt) db). start r \<ge> from' \<longrightarrow> end' r \<noteq> None"
    using assms(3) by simp
  then show ?thesis
    by (simp add: get_aliases_bounded_parsed[OF assms(1,2)] collect_bounded_no_open
        conj_commute conj_left_commute cong: conj_cong)
qed

text \<open>
  The theorem at a query for target \<open>T\<close> whose start is a datetime with fields 0 in a
  zone two units ahead of UTC and whose end is a naive datetime with fields 10: the
  bounds are 0 and 10, and of the rows \<open>[1, 5)\<close>, \<open>[-5, 30)\<close>, the open-ended row from \<open>-5\<close>
  and a row of another target, only the first is returned.
\<close>

theorem get_aliases_bounded_within_range_witness:
  "parse_start (\<lambda>s fmt. None) (Datetime \<lparr>wall = 0, tzinfo = Some 2\<rparr>) = Inr 0
   \<and> parse_end (\<lambda>s fmt. None) (Datetime \<lparr>wall = 10, tzinfo = None\<rparr>) = Inr 10
   \<and> get_aliases (\<lambda>s fmt. None) ''T'' (Datetime \<lparr>wall = 0, tzinfo = Some 2\<rparr>)
       (Some (Datetime \<lparr>wall = 10, tzinfo = None\<rparr>))
     [\<lparr>pk = Some 1, alias' = ''a'', target = ''T'', start = 1, end' = Some 5\<rparr>,
      \<lparr>pk = Some 2, alias' = ''b'', target = ''T'', start = - 5, end' = Some 30\<rparr>,
      \<lparr>pk = Some 3, alias' = ''c'', target = ''T'', start = - 5, end' = None\<rparr>,
      \<lparr>pk = Some 4, alias' = ''d'', target = ''U'', start = 2, end' = None\<rparr>]
   = Inr [''a'']"
proof -
  have s: "parse_start (\<lambda>s fmt. None) (Datetime \<lparr>wall = 0, tzinfo = Some 2\<rparr>) = Inr 0"
    by (simp add: parse_start_Datetime)
  have e: "parse_end (\<lambda>s fmt. None) (Datetime \<lparr>wall = 10, tzinfo = None\<rparr>) = Inr 10"
    by (simp add: parse_end_Datetime)
  show ?thesis
    using s e get_aliases_bounded_within_range
      [OF s e, of
        "[\<lparr>pk = Some 1, alias' = ''a'', target = ''T'', start = 1, end' = Some 5\<rparr>,
          \<lparr>pk = Some 2, alias' = ''b'', target = ''T'', start = - 5, end' = Some 30\<rparr>,
          \<lparr>pk = Some 3, alias' = ''c'', target = ''T'', start = - 5, end' = None\<rparr>,
          \<lparr>pk = Some 4, alias' = ''d'', target = ''U'', start = 2, end' = None\<rparr>]"
        "''T''"]
    by simp
qed

text \<open>
  Claim C3 as stated fails on both of its scenarios, with \<open>D0 = 0\<close>, days as the unit and
  UTC datetimes as arguments: the query \<open>[0, 10)\<close> over the single record \<open>[-5, 30)\<close>, which
  contains the range, returns the empty list; over the single record \<open>[1, 5)\<close>, which
  does not, it returns the alias.
\<close>

theorem get_aliases_containment_counterexample:
  "get_aliases (\<lambda>s fmt. None) ''T'' (Datetime \<lparr>wall = 0, tzinfo = Some 0\<rparr>)
       (Some (Datetime \<lparr>wall = 10, tzinfo = Some 0\<rparr>))
     [\<lparr>pk = Some 1, alias' = ''a'', target = ''T'', start = - 5, end' = Some 30\<rparr>] = Inr []
   \<and> get_aliases (\<lambda>s fmt. None) ''T'' (Datetime \<lparr>wall = 0, tzinfo = Some 0\<rparr>)
       (Some (Datetime \<lparr>wall = 10, tzinfo = Some 0\<rparr>))
     [\<lparr>pk = Some 1, alias' = ''a'', target = ''T'', start = 1, end' = Some 5\<rparr>] = Inr [''a'']"
  by (simp add: get_aliases_def parse_start_def parse_end_def instant_of_def
      replace_tzinfo_utc_def)




section \<open>\<^verbatim>\<open>alias_replace\<close> on a committed record\<close>

text \<open>
  Writing the field \<^verbatim>\<open>end\<close> of a row changes neither the primary keys nor any field the
  lookups of \<^verbatim>\<open>save\<close> and \<^verbatim>\<open>get\<close> compare, so these commute with the update.
\<close>

lemma pks_update_end: "pks (update_end k e db) = pks db"
  by (induction db) (auto simp: pks_def update_end_def)

lemma new_pk_update_end: "new_pk (update_end k e db) = new_pk db"
  by (simp add: new_pk_def pks_update_end)

lemma pk_in_pks: "r \<in> set db \<Longrightarrow> pk r = Some k \<Longrightarrow> k \<in> set (pks db)"
  by (force simp: pks_def)

lemma committed_in_update_end:
  "r \<in> set db \<Longrightarrow> pk r = Some k \<Longrightarrow> r\<lparr>end' := e\<rparr> \<in> set (update_end k e db)"
  by (force simp: update_end_def)

lemma same_key_start_update_end:
  "same_key_start c (update_end k e db) = update_end k e (same_key_start c db)"
  by (induction db) (auto simp: same_key_start_def update_end_def)

lemma overlapping_start_open_update_end:
  "overlapping_start_open c (update_end k e db) = update_end k e (overlapping_start_open c db)"
  by (induction db) (auto simp: overlapping_start_open_def update_end_def)

lemma filter_alias_update_end:
  "filter (\<lambda>r. alias' r = v) (update_end k e db) = update_end k e (filter (\<lambda>r. alias' r = v) db)"
  by (induction db) (auto simp: update_end_def)

lemma update_end_Nil: "update_end k e [] = []"
  by (simp add: update_end_def)

lemma update_end_Nil_iff: "update_end k e db = [] \<longleftrightarrow> db = []"
  by (simp add: update_end_def)

text \<open>
  An object that agrees with a committed row in alias, target and start goes straight to
  the base-class save; for a committed object saved with \<^verbatim>\<open>update_fields=['end']\<close> this is
  the update of its row.
\<close>

lemma save_matching_is_Model_save:
  assumes "r \<in> set db" "alias' self = alias' r" "target self = target r" "start self = start r"
  shows "save kw self db = Model_save kw self db"
proof -
  from assms have "r \<in> set (same_key_start self db)"
    by (simp add: same_key_start_def)
  then have "same_key_start self db \<noteq> []" by auto
  then show ?thesis by (simp add: save_def)
qed

lemma save_committed_update_end:
  assumes "ex \<in> set db" "pk ex = Some k"
  shows "save UpdateFieldsEnd (ex\<lparr>end' := e\<rparr>) db = (Inr (ex\<lparr>end' := e\<rparr>), update_end k e db)"
proof -
  have "save UpdateFieldsEnd (ex\<lparr>end' := e\<rparr>) db = Model_save UpdateFieldsEnd (ex\<lparr>end' := e\<rparr>) db"
    using assms(1) by (intro save_matching_is_Model_save[of ex]) simp_all
  then show ?thesis
    using pk_in_pks[OF assms] assms(2) by (simp add: Model_save_def)
qed

text \<open>What creating an open-ended record does, and \<^verbatim>\<open>alias_replace\<close> after its first two lines.\<close>

lemma create_result:
  "objects_create a t s None db =
     (if same_key_start \<lparr>pk = None, alias' = a, target = t, start = s, end' = None\<rparr> db = []
         \<and> overlapping_start_open \<lparr>pk = None, alias' = a, target = t, start = s, end' = None\<rparr> db \<noteq> []
      then (Inl overlap_error, db)
      else (Inr \<lparr>pk = Some (new_pk db), alias' = a, target = t, start = s, end' = None\<rparr>,
            db @ [\<lparr>pk = Some (new_pk db), alias' = a, target = t, start = s, end' = None\<rparr>]))"
  by (simp add: objects_create_def save_def Model_save_def Let_def)

lemma alias_replace_committed:
  assumes "ex \<in> set db" "pk ex = Some k"
  shows "alias_replace ex at new db =
     (case objects_create new (target ex) at None (update_end k (Some at) db) of
        (Inl err, db2) \<Rightarrow> (Inl err, ex\<lparr>end' := Some at\<rparr>, db2)
      | (Inr created, db2) \<Rightarrow>
          (case objects_get new db2 of
             Inl err \<Rightarrow> (Inl err, ex\<lparr>end' := Some at\<rparr>, db2)
           | Inr found \<Rightarrow> (Inr (alias' found), ex\<lparr>end' := Some at\<rparr>, db2)))"
  by (simp add: alias_replace_def Let_def save_committed_update_end[OF assms])

lemma objects_get_alias:
  "objects_get v db = Inr found \<Longrightarrow> alias' found = v"
proof -
  assume a: "objects_get v db = Inr found"
  then have "filter (\<lambda>r. alias' r = v) db = [found]"
    by (auto simp: objects_get_def split: list.splits)
  then have "found \<in> set (filter (\<lambda>r. alias' r = v) db)" by simp
  then show ?thesis by simp
qed

text \<open>
  Claim C7, as the code has it: \<^verbatim>\<open>alias_replace\<close> never compares \<open>replace_at\<close> with the start
  of the existing record. For a committed existing record, a new alias that no row uses
  yet and every \<open>replace_at\<close>, also one at or before the existing start, the call
  returns the new alias, sets the end of the existing row to \<open>replace_at\<close> and commits the
  new open-ended record.
\<close>

theorem replace_without_start_check:
  assumes "ex \<in> set db" "pk ex = Some k" "\<forall>r \<in> set db. alias' r \<noteq> new"
  shows "alias_replace ex at new db =
           (Inr new, ex\<lparr>end' := Some at\<rparr>,
            update_end k (Some at) db
              @ [\<lparr>pk = Some (new_pk db), alias' = new, target = target ex, start = at, end' = None\<rparr>])"
proof -
  have f: "filter (\<lambda>r. alias' r = new) db = []"
    using assms(3) by (simp add: filter_empty_conv)
  have o: "overlapping_start_open \<lparr>pk = None, alias' = new, target = target ex, start = at, end' = None\<rparr> db = []"
    using assms(3) by (simp add: overlapping_start_open_def filter_empty_conv)
  show ?thesis
    by (simp add: alias_replace_committed[OF assms(1,2)] create_result
        overlapping_start_open_update_end o update_end_Nil_iff new_pk_update_end
        objects_get_def filter_alias_update_end f update_end_Nil)
qed

text \<open>The theorem at the record open from 10 and the split point 5.\<close>

theorem replace_without_start_check_witness:
  "alias_replace \<lparr>pk = Some 1, alias' = ''a'', target = ''T'', start = 10, end' = None\<rparr> 5 ''b''
     [\<lparr>pk = Some 1, alias' = ''a'', target = ''T'', start = 10, end' = None\<rparr>]
   = (Inr ''b'', \<lparr>pk = Some 1, alias' = ''a'', target = ''T'', start = 10, end' = Some 5\<rparr>,
      [\<lparr>pk = Some 1, alias' = ''a'', target = ''T'', start = 10, end' = Some 5\<rparr>,
       \<lparr>pk = Some 2, alias' = ''b'', target = ''T'', start = 5, end' = None\<rparr>])"
  using replace_without_start_check
    [of "\<lparr>pk = Some 1, alias' = ''a'', target = ''T'', start = 10, end' = None\<rparr>"
        "[\<lparr>pk = Some 1, alias' = ''a'', target = ''T'', start = 10, end' = None\<rparr>]"
        1 "''b''" 5]
  by (simp add: update_end_def new_pk_def pks_def eval_nat_numeral)

text \<open>
  Claim C7 as stated fails: splitting the record open from 10 at the instant 10 itself
  raises nothing; the existing row becomes the empty interval from 10 to 10 and the new
  record is committed.
\<close>

theorem replace_before_start_counterexample:
  "alias_replace \<lparr>pk = Some 1, alias' = ''a'', target = ''T'', start = 10, end' = None\<rparr> 10 ''b''
     [\<lparr>pk = Some 1, alias' = ''a'', target = ''T'', start = 10, end' = None\<rparr>]
   = (Inr ''b'', \<lparr>pk = Some 1, alias' = ''a'', target = ''T'', start = 10, end' = Some 10\<rparr>,
      [\<lparr>pk = Some 1, alias' = ''a'', target = ''T'', start = 10, end' = Some 10\<rparr>,
       \<lparr>pk = Some 2, alias' = ''b'', target = ''T'', start = 10, end' = None\<rparr>])"
  by (simp add: alias_replace_def objects_create_def objects_get_def save_def Model_save_def
      same_key_start_def overlapping_start_open_def update_end_def new_pk_def pks_def Let_def
      eval_nat_numeral)

text \<open>Creating an open-ended record either raises the overlap error or appends the record.\<close>

lemma create_cases:
  "objects_create a t s None db = (Inl overlap_error, db)
   \<or> objects_create a t s None db =
       (Inr \<lparr>pk = Some (new_pk db), alias' = a, target = t, start = s, end' = None\<rparr>,
        db @ [\<lparr>pk = Some (new_pk db), alias' = a, target = t, start = s, end' = None\<rparr>])"
  by (simp only: create_result split: if_split) simp

text \<open>
  Claim C6, as the code has it, for a committed existing record. When \<^verbatim>\<open>alias_replace\<close>
  returns normally, it returns the new alias, the caller's object and the stored row have
  their end at \<open>replace_at\<close>, and the new open-ended record is in the table. When creating
  the new record fails, the call raises that error and the narrowing stays committed:
  the table is the one with the end of the existing row already set to \<open>replace_at\<close>.
\<close>

theorem replace_commits_without_rollback:
  assumes "ex \<in> set db" "pk ex = Some k"
  shows "(\<forall>v ex1 db1. alias_replace ex at new db = (Inr v, ex1, db1) \<longrightarrow>
            v = new \<and> ex1 = ex\<lparr>end' := Some at\<rparr> \<and> ex\<lparr>end' := Some at\<rparr> \<in> set db1
            \<and> \<lparr>pk = Some (new_pk db), alias' = new, target = target ex, start = at, end' = None\<rparr>
                \<in> set db1)
       \<and> (\<forall>err. fst (objects_create new (target ex) at None (update_end k (Some at) db)) = Inl err
            \<longrightarrow> alias_replace ex at new db
                  = (Inl err, ex\<lparr>end' := Some at\<rparr>, update_end k (Some at) db)
                \<and> ex\<lparr>end' := Some at\<rparr> \<in> set (update_end k (Some at) db))"
proof -
  let ?c = "\<lparr>pk = Some (new_pk db), alias' = new, target = target ex, start = at, end' = None\<rparr>"
  let ?db1 = "update_end k (Some at) db"
  let ?ex = "ex\<lparr>end' := Some at\<rparr>"
  note rep = alias_replace_committed[OF assms, of at new]
  have mem: "?ex \<in> set ?db1" by (rule committed_in_update_end[OF assms])
  from create_cases[of new "target ex" at ?db1]
  show ?thesis
  proof
    assume cr: "objects_create new (target ex) at None ?db1 = (Inl overlap_error, ?db1)"
    then have "alias_replace ex at new db = (Inl overlap_error, ?ex, ?db1)"
      by (simp add: rep)
    with cr mem show ?thesis by simp
  next
    assume cr: "objects_create new (target ex) at None ?db1
                  = (Inr (\<lparr>pk = Some (new_pk ?db1), alias' = new, target = target ex, start = at, end' = None\<rparr>),
                     ?db1 @ [\<lparr>pk = Some (new_pk ?db1), alias' = new, target = target ex, start = at, end' = None\<rparr>])"
    then have cr2: "objects_create new (target ex) at None ?db1 = (Inr ?c, ?db1 @ [?c])"
      by (simp only: new_pk_update_end)
    have second: "\<forall>err. fst (objects_create new (target ex) at None ?db1) \<noteq> Inl err"
      by (simp add: cr2)
    have first: "v = new \<and> ex1 = ?ex \<and> ?ex \<in> set db1 \<and> ?c \<in> set db1"
      if ok: "alias_replace ex at new db = (Inr v, ex1, db1)" for v ex1 db1
    proof (cases "objects_get new (?db1 @ [?c])")
      case (Inl err)
      then have "alias_replace ex at new db = (Inl err, ?ex, ?db1 @ [?c])"
        by (simp add: rep cr2)
      with ok show ?thesis by simp
    next
      case (Inr found)
      then have "alias_replace ex at new db = (Inr (alias' found), ?ex, ?db1 @ [?c])"
        by (simp add: rep cr2)
      with ok have "v = alias' found" "ex1 = ?ex" "db1 = ?db1 @ [?c]" by simp_all
      with objects_get_alias[OF Inr] mem show ?thesis by simp
    qed
    from first second show ?thesis by blast
  qed
qed

text \<open>
  Claim C6 as stated fails: with a record of key \<open>(b, T)\<close> starting at 30 in the table,
  replacing the open-ended \<open>(a, T)\<close> at 20 by \<open>b\<close> raises the overlap error from the creation,
  and the end of the existing row is 20 afterwards, not \<^verbatim>\<open>None\<close> as before the call.
\<close>

theorem replace_rollback_counterexample:
  "alias_replace \<lparr>pk = Some 1, alias' = ''a'', target = ''T'', start = 0, end' = None\<rparr> 20 ''b''
     [\<lparr>pk = Some 1, alias' = ''a'', target = ''T'', start = 0, end' = None\<rparr>,
      \<lparr>pk = Some 2, alias' = ''b'', target = ''T'', start = 30, end' = None\<rparr>]
   = (Inl overlap_error, \<lparr>pk = Some 1, alias' = ''a'', target = ''T'', start = 0, end' = Some 20\<rparr>,
      [\<lparr>pk = Some 1, alias' = ''a'', target = ''T'', start = 0, end' = Some 20\<rparr>,
       \<lparr>pk = Some 2, alias' = ''b'', target = ''T'', start = 30, end' = None\<rparr>])"
  by (simp add: alias_replace_def objects_create_def objects_get_def save_def Model_save_def
      same_key_start_def overlapping_start_open_def update_end_def new_pk_def pks_def Let_def
      eval_nat_numeral)

text \<open>
  The theorem at both outcomes: the failing creation of the counterexample, and the
  successful replacement when the existing record is alone in the table.
\<close>

theorem replace_commits_without_rollback_witness:
  "alias_replace \<lparr>pk = Some 1, alias' = ''a'', target = ''T'', start = 0, end' = None\<rparr> 20 ''b''
     [\<lparr>pk = Some 1, alias' = ''a'', target = ''T'', start = 0, end' = None\<rparr>,
      \<lparr>pk = Some 2, alias' = ''b'', target = ''T'', start = 30, end' = None\<rparr>]
   = (Inl overlap_error, \<lparr>pk = Some 1, alias' = ''a'', target = ''T'', start = 0, end' = Some 20\<rparr>,
      [\<lparr>pk = Some 1, alias' = ''a'', target = ''T'', start = 0, end' = Some 20\<rparr>,
       \<lparr>pk = Some 2, alias' = ''b'', target = ''T'', start = 30, end' = None\<rparr>])
   \<and> fst (alias_replace \<lparr>pk = Some 1, alias' = ''a'', target = ''T'', start = 0, end' = None\<rparr> 20 ''b''
          [\<lparr>pk = Some 1, alias' = ''a'', target = ''T'', start = 0, end' = None\<rparr>]) = Inr ''b''
   \<and> \<lparr>pk = Some 1, alias' = ''a'', target = ''T'', start = 0, end' = Some 20\<rparr>
       \<in> set (snd (snd (alias_replace
             \<lparr>pk = Some 1, alias' = ''a'', target = ''T'', start = 0, end' = None\<rparr> 20 ''b''
             [\<lparr>pk = Some 1, alias' = ''a'', target = ''T'', start = 0, end' = None\<rparr>])))
   \<and> \<lparr>pk = Some 2, alias' = ''b'', target = ''T'', start = 20, end' = None\<rparr>
       \<in> set (snd (snd (alias_replace
             \<lparr>pk = Some 1, alias' = ''a'', target = ''T'', start = 0, end' = None\<rparr> 20 ''b''
             [\<lparr>pk = Some 1, alias' = ''a'', target = ''T'', start = 0, end' = None\<rparr>])))"
proof -
  let ?a = "\<lparr>pk = Some 1, alias' = ''a'', target = ''T'', start = 0, end' = None\<rparr>"
  let ?b = "\<lparr>pk = Some 2, alias' = ''b'', target = ''T'', start = 30, end' = None\<rparr>"
  have u2: "update_end 1 (Some 20) [?a, ?b] = [?a\<lparr>end' := Some 20\<rparr>, ?b]"
    by (simp add: update_end_def)
  have fail: "fst (objects_create ''b'' (target ?a) 20 None (update_end 1 (Some 20) [?a, ?b]))
      = Inl overlap_error"
    unfolding u2
    by (simp add: objects_create_def save_def same_key_start_def overlapping_start_open_def Let_def)
  have n1: "new_pk [?a] = 2"
    by (simp add: new_pk_def pks_def)
  have ok: "fst (alias_replace ?a 20 ''b'' [?a]) = Inr ''b''"
    by (simp add: alias_replace_def objects_create_def objects_get_def save_def Model_save_def
      same_key_start_def overlapping_start_open_def update_end_def new_pk_def pks_def Let_def)
  have A: "?a \<in> set [?a, ?b]" "?a \<in> set [?a]" "pk ?a = Some 1" by simp_all
  from replace_commits_without_rollback[OF A(1) A(3), of 20 "''b''"] fail
  have "alias_replace ?a 20 ''b'' [?a, ?b]
     = (Inl overlap_error, ?a\<lparr>end' := Some 20\<rparr>, update_end 1 (Some 20) [?a, ?b])"
    by blast
  then have c1: "alias_replace ?a 20 ''b'' [?a, ?b]
     = (Inl overlap_error, \<lparr>pk = Some 1, alias' = ''a'', target = ''T'', start = 0, end' = Some 20\<rparr>,
        [\<lparr>pk = Some 1, alias' = ''a'', target = ''T'', start = 0, end' = Some 20\<rparr>, ?b])"
    unfolding u2 by simp
  obtain ex1 db1 where eq: "alias_replace ?a 20 ''b'' [?a] = (Inr ''b'', ex1, db1)"
    using ok by (cases "alias_replace ?a 20 ''b'' [?a]") auto
  from replace_commits_without_rollback[OF A(2) A(3), of 20 "''b''"] eq
  have "?a\<lparr>end' := Some 20\<rparr> \<in> set db1"
    and "\<lparr>pk = Some (new_pk [?a]), alias' = ''b'', target = target ?a, start = 20, end' = None\<rparr>
                \<in> set db1"
    by blast+
  then have c2: "\<lparr>pk = Some 1, alias' = ''a'', target = ''T'', start = 0, end' = Some 20\<rparr> \<in> set db1"
    and c3: "\<lparr>pk = Some 2, alias' = ''b'', target = ''T'', start = 20, end' = None\<rparr> \<in> set db1"
    unfolding n1 by simp_all
  from c1 c2 c3 eq show ?thesis
    by (simp only: fst_conv snd_conv simp_thms)
qed

section \<open>Re-saving a committed record\<close>

text \<open>The two updates, row by row: the number of rows stays, and only rows of the key change.\<close>

lemma length_update_end: "length (update_end k e db) = length db"
  by (simp add: update_end_def)

lemma length_update_row: "length (update_row k self db) = length db"
  by (simp add: update_row_def)

lemma nth_update_end:
  "i < length db \<Longrightarrow>
     update_end k e db ! i = (if pk (db ! i) = Some k then (db ! i)\<lparr>end' := e\<rparr> else db ! i)"
  by (simp add: update_end_def)

lemma nth_update_row:
  "i < length db \<Longrightarrow> update_row k self db ! i = (if pk (db ! i) = Some k then self else db ! i)"
  by (simp add: update_row_def)

text \<open>
  Claim C8, as the code has it. When the object being saved agrees with some committed
  row in alias, target and start, \<^verbatim>\<open>save\<close> does not raise the overlap error: the lookups of
  the overlap check are not run. When, moreover, the object carries the primary key of a
  stored row and is not force-inserted, the save is an update in place: it returns the
  object, the table keeps its number of rows, the row of that key gets the object's end
  (under \<^verbatim>\<open>update_fields=['end']\<close>) or becomes the object (without keyword arguments), and
  every other row stays as it was. So narrowing the end of a committed record and
  re-saving it never fails by conflicting with itself.
\<close>

theorem resave_skips_overlap_check:
  assumes "r \<in> set db" "alias' self = alias' r" "target self = target r" "start self = start r"
  shows "fst (save kw self db) \<noteq> Inl overlap_error
       \<and> (\<forall>k. pk self = Some k \<and> k \<in> set (pks db) \<and> kw \<noteq> ForceInsert \<longrightarrow>
             fst (save kw self db) = Inr self
           \<and> length (snd (save kw self db)) = length db
           \<and> (\<forall>i < length db.
                 snd (save kw self db) ! i =
                   (if pk (db ! i) = Some k
                    then (if kw = UpdateFieldsEnd then (db ! i)\<lparr>end' := end' self\<rparr> else self)
                    else db ! i)))"
proof -
  have m: "save kw' self db = Model_save kw' self db" for kw'
    by (rule save_matching_is_Model_save[OF assms])
  have "fst (save kw self db) = Inr self
           \<and> length (snd (save kw self db)) = length db
           \<and> (\<forall>i < length db.
                 snd (save kw self db) ! i =
                   (if pk (db ! i) = Some k
                    then (if kw = UpdateFieldsEnd then (db ! i)\<lparr>end' := end' self\<rparr> else self)
                    else db ! i))"
    if "pk self = Some k" "k \<in> set (pks db)" "kw \<noteq> ForceInsert" for k
  proof (cases kw)
    case NoKwargs
    with that show ?thesis
      by (simp add: m Model_save_def length_update_row nth_update_row)
  next
    case ForceInsert
    with that show ?thesis by simp
  next
    case UpdateFieldsEnd
    with that show ?thesis
      by (simp add: m Model_save_def length_update_end nth_update_end)
  qed
  then show ?thesis
    by (simp add: m Model_save_not_overlap)
qed

text \<open>
  The theorem at a committed record open from 0 whose end is set to 40, next to a row of
  its key that starts at 30: the re-save succeeds, the first row gets the end 40 and the
  second row stays.
\<close>

theorem resave_skips_overlap_check_witness:
  "fst (save UpdateFieldsEnd
          \<lparr>pk = Some 1, alias' = ''x'', target = ''T'', start = 0, end' = Some 40\<rparr>
          [\<lparr>pk = Some 1, alias' = ''x'', target = ''T'', start = 0, end' = None\<rparr>,
           \<lparr>pk = Some 2, alias' = ''x'', target = ''T'', start = 30, end' = None\<rparr>])
     = Inr \<lparr>pk = Some 1, alias' = ''x'', target = ''T'', start = 0, end' = Some 40\<rparr>
   \<and> length (snd (save UpdateFieldsEnd
          \<lparr>pk = Some 1, alias' = ''x'', target = ''T'', start = 0, end' = Some 40\<rparr>
          [\<lparr>pk = Some 1, alias' = ''x'', target = ''T'', start = 0, end' = None\<rparr>,
           \<lparr>pk = Some 2, alias' = ''x'', target = ''T'', start = 30, end' = None\<rparr>])) = 2
   \<and> snd (save UpdateFieldsEnd
          \<lparr>pk = Some 1, alias' = ''x'', target = ''T'', start = 0, end' = Some 40\<rparr>
          [\<lparr>pk = Some 1, alias' = ''x'', target = ''T'', start = 0, end' = None\<rparr>,
           \<lparr>pk = Some 2, alias' = ''x'', target = ''T'', start = 30, end' = None\<rparr>]) ! 0
     = \<lparr>pk = Some 1, alias' = ''x'', target = ''T'', start = 0, end' = Some 40\<rparr>
   \<and> snd (save UpdateFieldsEnd
          \<lparr>pk = Some 1, alias' = ''x'', target = ''T'', start = 0, end' = Some 40\<rparr>
          [\<lparr>pk = Some 1, alias' = ''x'', target = ''T'', start = 0, end' = None\<rparr>,
           \<lparr>pk = Some 2, alias' = ''x'', target = ''T'', start = 30, end' = None\<rparr>]) ! 1
     = \<lparr>pk = Some 2, alias' = ''x'', target = ''T'', start = 30, end' = None\<rparr>"
proof -
  let ?a = "\<lparr>pk = Some 1, alias' = ''x'', target = ''T'', start = 0, end' = None\<rparr>"
  let ?b = "\<lparr>pk = Some 2, alias' = ''x'', target = ''T'', start = 30, end' = None\<rparr>"
  let ?s = "\<lparr>pk = Some 1, alias' = ''x'', target = ''T'', start = 0, end' = Some 40\<rparr>"
  have p: "pk ?s = Some 1 \<and> 1 \<in> set (pks [?a, ?b]) \<and> UpdateFieldsEnd \<noteq> ForceInsert"
    by (simp add: pks_def)
  have h: "?a \<in> set [?a, ?b]" "alias' ?s = alias' ?a" "target ?s = target ?a"
    "start ?s = start ?a"
    by simp_all
  from resave_skips_overlap_check[OF h, of UpdateFieldsEnd] p
  have res: "fst (save UpdateFieldsEnd ?s [?a, ?b]) = Inr ?s"
    "length (snd (save UpdateFieldsEnd ?s [?a, ?b])) = length [?a, ?b]"
    and nth: "\<forall>i < length [?a, ?b].
       snd (save UpdateFieldsEnd ?s [?a, ?b]) ! i =
         (if pk ([?a, ?b] ! i) = Some 1
          then (if UpdateFieldsEnd = UpdateFieldsEnd then ([?a, ?b] ! i)\<lparr>end' := end' ?s\<rparr> else ?s)
          else [?a, ?b] ! i)"
    by blast+
  from nth have "0 < length [?a, ?b] \<longrightarrow> snd (save UpdateFieldsEnd ?s [?a, ?b]) ! 0 =
         (if pk ([?a, ?b] ! 0) = Some 1
          then (if UpdateFieldsEnd = UpdateFieldsEnd then ([?a, ?b] ! 0)\<lparr>end' := end' ?s\<rparr> else ?s)
          else [?a, ?b] ! 0)"
    by blast
  then have n0: "snd (save UpdateFieldsEnd ?s [?a, ?b]) ! 0 = ?s" by simp
  from nth have "1 < length [?a, ?b] \<longrightarrow> snd (save UpdateFieldsEnd ?s [?a, ?b]) ! 1 =
         (if pk ([?a, ?b] ! 1) = Some 1
          then (if UpdateFieldsEnd = UpdateFieldsEnd then ([?a, ?b] ! 1)\<lparr>end' := end' ?s\<rparr> else ?s)
          else [?a, ?b] ! 1)"
    by blast
  then have n1: "snd (save UpdateFieldsEnd ?s [?a, ?b]) ! 1 = ?b" by simp
  from res n0 n1 show ?thesis by simp
qed

text \<open>
  Claim C8 as stated fails: a new object with the alias, target and start of a committed
  row is not saved as an update. Created, or saved without keyword arguments, it is
  inserted as a second row under a new primary key, and the committed row stays.
\<close>

theorem resave_fresh_object_inserted_counterexample:
  "objects_create ''x'' ''T'' 0 (Some 40)
     [\<lparr>pk = Some 1, alias' = ''x'', target = ''T'', start = 0, end' = None\<rparr>]
   = (Inr \<lparr>pk = Some 2, alias' = ''x'', target = ''T'', start = 0, end' = Some 40\<rparr>,
      [\<lparr>pk = Some 1, alias' = ''x'', target = ''T'', start = 0, end' = None\<rparr>,
       \<lparr>pk = Some 2, alias' = ''x'', target = ''T'', start = 0, end' = Some 40\<rparr>])
   \<and> save NoKwargs \<lparr>pk = None, alias' = ''x'', target = ''T'', start = 0, end' = Some 40\<rparr>
     [\<lparr>pk = Some 1, alias' = ''x'', target = ''T'', start = 0, end' = None\<rparr>]
   = (Inr \<lparr>pk = Some 2, alias' = ''x'', target = ''T'', start = 0, end' = Some 40\<rparr>,
      [\<lparr>pk = Some 1, alias' = ''x'', target = ''T'', start = 0, end' = None\<rparr>,
       \<lparr>pk = Some 2, alias' = ''x'', target = ''T'', start = 0, end' = Some 40\<rparr>])"
  by (simp add: objects_create_def save_def Model_save_def same_key_start_def new_pk_def
      pks_def Let_def eval_nat_numeral)

section \<open>The final lookup of \<^verbatim>\<open>alias_replace\<close>\<close>

text \<open>
  Claim C10, as the code has it. Let the existing record be committed and let some row,
  of any target, already carry the new alias. Then \<^verbatim>\<open>alias_replace\<close> never returns. If a
  row of the new alias and the existing target starts at or after \<open>replace_at\<close> and none
  starts exactly there, creating the new record raises the overlap error: the lookup is
  not reached and only the narrowed end is committed. In every other case the record is
  created and \<^verbatim>\<open>Alias.objects.get(alias=new_alias_value)\<close>, which ignores the target, raises
  \<^verbatim>\<open>MultipleObjectsReturned\<close>, with both the narrowed end and the new record committed.
\<close>

theorem replace_lookup_by_alias_alone:
  assumes "ex \<in> set db" "pk ex = Some k"
    and "r \<in> set db" "alias' r = new"
  shows "alias_replace ex at new db =
           (if (\<forall>x \<in> set db. \<not> (alias' x = new \<and> target x = target ex \<and> start x = at))
               \<and> (\<exists>x \<in> set db. alias' x = new \<and> target x = target ex \<and> at \<le> start x)
            then (Inl overlap_error, ex\<lparr>end' := Some at\<rparr>, update_end k (Some at) db)
            else (Inl MultipleObjectsReturned, ex\<lparr>end' := Some at\<rparr>,
                  update_end k (Some at) db
                    @ [\<lparr>pk = Some (new_pk db), alias' = new, target = target ex,
                         start = at, end' = None\<rparr>]))"
proof -
  let ?cand = "\<lparr>pk = None, alias' = new, target = target ex, start = at, end' = None\<rparr>"
  let ?c = "\<lparr>pk = Some (new_pk db), alias' = new, target = target ex, start = at, end' = None\<rparr>"
  let ?db1 = "update_end k (Some at) db"
  have s: "same_key_start ?cand ?db1 = []
      \<longleftrightarrow> (\<forall>x \<in> set db. \<not> (alias' x = new \<and> target x = target ex \<and> start x = at))"
    unfolding same_key_start_update_end update_end_Nil_iff
    by (auto simp: same_key_start_def filter_empty_conv)
  have o: "overlapping_start_open ?cand ?db1 \<noteq> []
      \<longleftrightarrow> (\<exists>x \<in> set db. alias' x = new \<and> target x = target ex \<and> at \<le> start x)"
    unfolding overlapping_start_open_update_end update_end_Nil_iff
    by (auto simp: overlapping_start_open_def filter_empty_conv)
  from assms(3,4) have "r \<in> set (filter (\<lambda>x. alias' x = new) db)" by simp
  then obtain y ys where f: "filter (\<lambda>x. alias' x = new) db = y # ys"
    by (cases "filter (\<lambda>x. alias' x = new) db") auto
  have "filter (\<lambda>x. alias' x = new) (?db1 @ [?c]) = update_end k (Some at) (y # ys) @ [?c]"
    by (simp add: filter_alias_update_end f)
  then obtain a b rest where "filter (\<lambda>x. alias' x = new) (?db1 @ [?c]) = a # b # rest"
    by (cases ys) (simp_all add: update_end_def)
  then have g: "objects_get new (?db1 @ [?c]) = Inl MultipleObjectsReturned"
    by (simp only: objects_get_def list.case)
  show ?thesis
  proof (cases "same_key_start ?cand ?db1 = [] \<and> overlapping_start_open ?cand ?db1 \<noteq> []")
    case True
    have "objects_create new (target ex) at None ?db1 = (Inl overlap_error, ?db1)"
      by (simp only: create_result if_P[OF True])
    then have "alias_replace ex at new db = (Inl overlap_error, ex\<lparr>end' := Some at\<rparr>, ?db1)"
      by (simp add: alias_replace_committed[OF assms(1,2)])
    with True s o show ?thesis by simp
  next
    case False
    have "objects_create new (target ex) at None ?db1 = (Inr ?c, ?db1 @ [?c])"
      by (simp only: create_result if_not_P[OF False] new_pk_update_end)
    then have "alias_replace ex at new db
        = (Inl MultipleObjectsReturned, ex\<lparr>end' := Some at\<rparr>, ?db1 @ [?c])"
      by (simp add: alias_replace_committed[OF assms(1,2)] g)
    with False s o show ?thesis by simp
  qed
qed

text \<open>
  The theorem at both outcomes, replacing the committed \<open>(a, T)\<close> at 20 by \<open>b\<close>: where \<open>b\<close>
  is used for the other target \<open>U\<close> only, the lookup raises with both writes committed;
  where \<open>(b, T)\<close> also has a record starting at 30, the creation raises first.
\<close>

theorem replace_lookup_by_alias_alone_witness:
  "alias_replace \<lparr>pk = Some 1, alias' = ''a'', target = ''T'', start = 0, end' = None\<rparr> 20 ''b''
     [\<lparr>pk = Some 1, alias' = ''a'', target = ''T'', start = 0, end' = None\<rparr>,
      \<lparr>pk = Some 2, alias' = ''b'', target = ''U'', start = 5, end' = None\<rparr>]
   = (Inl MultipleObjectsReturned,
      \<lparr>pk = Some 1, alias' = ''a'', target = ''T'', start = 0, end' = Some 20\<rparr>,
      [\<lparr>pk = Some 1, alias' = ''a'', target = ''T'', start = 0, end' = Some 20\<rparr>,
       \<lparr>pk = Some 2, alias' = ''b'', target = ''U'', start = 5, end' = None\<rparr>,
       \<lparr>pk = Some 3, alias' = ''b'', target = ''T'', start = 20, end' = None\<rparr>])
   \<and> alias_replace \<lparr>pk = Some 1, alias' = ''a'', target = ''T'', start = 0, end' = None\<rparr> 20 ''b''
     [\<lparr>pk = Some 1, alias' = ''a'', target = ''T'', start = 0, end' = None\<rparr>,
      \<lparr>pk = Some 2, alias' = ''b'', target = ''U'', start = 5, end' = None\<rparr>,
      \<lparr>pk = Some 3, alias' = ''b'', target = ''T'', start = 30, end' = None\<rparr>]
   = (Inl overlap_error,
      \<lparr>pk = Some 1, alias' = ''a'', target = ''T'', start = 0, end' = Some 20\<rparr>,
      [\<lparr>pk = Some 1, alias' = ''a'', target = ''T'', start = 0, end' = Some 20\<rparr>,
       \<lparr>pk = Some 2, alias' = ''b'', target = ''U'', start = 5, end' = None\<rparr>,
       \<lparr>pk = Some 3, alias' = ''b'', target = ''T'', start = 30, end' = None\<rparr>])"
proof -
  let ?a = "\<lparr>pk = Some 1, alias' = ''a'', target = ''T'', start = 0, end' = None\<rparr>"
  let ?b = "\<lparr>pk = Some 2, alias' = ''b'', target = ''U'', start = 5, end' = None\<rparr>"
  let ?c = "\<lparr>pk = Some 3, alias' = ''b'', target = ''T'', start = 30, end' = None\<rparr>"
  have h: "?a \<in> set [?a, ?b]" "pk ?a = Some 1" "?b \<in> set [?a, ?b]" "alias' ?b = ''b''"
    by simp_all
  have h3: "?a \<in> set [?a, ?b, ?c]" "pk ?a = Some 1" "?b \<in> set [?a, ?b, ?c]" "alias' ?b = ''b''"
    by simp_all
  have n: "new_pk [?a, ?b] = 3"
    by (simp add: new_pk_def pks_def)
  have 1: "alias_replace ?a 20 ''b'' [?a, ?b]
     = (Inl MultipleObjectsReturned, ?a\<lparr>end' := Some 20\<rparr>,
        update_end 1 (Some 20) [?a, ?b]
          @ [\<lparr>pk = Some 3, alias' = ''b'', target = ''T'', start = 20, end' = None\<rparr>])"
    using replace_lookup_by_alias_alone[OF h, of 20] unfolding n by simp
  have 2: "alias_replace ?a 20 ''b'' [?a, ?b, ?c]
     = (Inl overlap_error, ?a\<lparr>end' := Some 20\<rparr>, update_end 1 (Some 20) [?a, ?b, ?c])"
    using replace_lookup_by_alias_alone[OF h3, of 20] by simp
  from 1 2 show ?thesis by (simp add: update_end_def)
qed

text \<open>
  Claim C10 as stated fails: the alias \<open>b\<close> is used under the other key \<open>(b, U)\<close>, and
  \<open>(b, T)\<close> has a record starting at 30. Replacing \<open>(a, T)\<close> at 20 by \<open>b\<close> raises the
  overlap error from the creation; the lookup is not reached and no record is created.
\<close>

theorem replace_lookup_not_reached_counterexample:
  "alias_replace \<lparr>pk = Some 1, alias' = ''a'', target = ''T'', start = 0, end' = None\<rparr> 20 ''b''
     [\<lparr>pk = Some 1, alias' = ''a'', target = ''T'', start = 0, end' = None\<rparr>,
      \<lparr>pk = Some 2, alias' = ''b'', target = ''U'', start = 5, end' = None\<rparr>,
      \<lparr>pk = Some 3, alias' = ''b'', target = ''T'', start = 30, end' = None\<rparr>]
   = (Inl overlap_error,
      \<lparr>pk = Some 1, alias' = ''a'', target = ''T'', start = 0, end' = Some 20\<rparr>,
      [\<lparr>pk = Some 1, alias' = ''a'', target = ''T'', start = 0, end' = Some 20\<rparr>,
       \<lparr>pk = Some 2, alias' = ''b'', target = ''U'', start = 5, end' = None\<rparr>,
       \<lparr>pk = Some 3, alias' = ''b'', target = ''T'', start = 30, end' = None\<rparr>])"
  by (simp add: alias_replace_def objects_create_def objects_get_def save_def Model_save_def
      same_key_start_def overlapping_start_open_def update_end_def new_pk_def pks_def Let_def
      eval_nat_numeral)

end
